theory Spec2Isabelle
  imports Complex_Main
begin

section \<open>Numbers and errors\<close>

text \<open>
  Python floats and complex numbers are read as the reals and the complex numbers. A
  division whose divisor is zero has no value there: Python raises
  \<^verbatim>\<open>ZeroDivisionError\<close> on its own floats, and numpy scalars yield \<^verbatim>\<open>inf\<close> or
  \<^verbatim>\<open>nan\<close>. Both are the error result of the checked divisions below, so that every
  division of the source is a branch of the model.
\<close>

datatype error = ZeroDivisionError | NotImplementedError

definition div_real :: "real \<Rightarrow> real \<Rightarrow> error + real" where
  "div_real a b = (if b = 0 then Inl ZeroDivisionError else Inr (a / b))"

definition div_complex :: "complex \<Rightarrow> real \<Rightarrow> error + complex" where
  "div_complex a b = (if b = 0 then Inl ZeroDivisionError else Inr (a / complex_of_real b))"

definition bind_err :: "error + 'a \<Rightarrow> ('a \<Rightarrow> error + 'b) \<Rightarrow> error + 'b" where
  "bind_err m k = (case m of Inl e \<Rightarrow> Inl e | Inr x \<Rightarrow> k x)"

section \<open>Power converter models (\<^verbatim>\<open>model/_converter.py\<close>)\<close>

record Inverter =
  u_dc0 :: real

text \<open>
  The static methods \<^verbatim>\<open>ac_voltage\<close> (\<^verbatim>\<open>q*u_dc\<close>) and \<^verbatim>\<open>dc_current\<close>
  (\<^verbatim>\<open>1.5*np.real(q*np.conj(i_c))\<close>) are not embedded. What relates them, the balance of
  the AC-side and the DC-side power, is an identity of exact arithmetic; the program
  computes both sides in doubles, where the products are rounded in different orders and
  the two powers agree up to rounding only. Reals cannot tell the two apart.
\<close>

definition meas_dc_voltage :: "'a Inverter_scheme \<Rightarrow> real" where
  "meas_dc_voltage self = u_dc0 self"

record FrequencyConverter = Inverter +
  L :: real
  C :: real
  i_L0 :: real
  u_g :: real
  w_g :: real

definition FrequencyConverter_init :: "real \<Rightarrow> real \<Rightarrow> real \<Rightarrow> real \<Rightarrow> FrequencyConverter" where
  "FrequencyConverter_init l c U_g f_g =
     \<lparr>u_dc0 = sqrt 2 * U_g, L = l, C = c, i_L0 = 0,
      u_g = sqrt (2 / 3) * U_g, w_g = 2 * pi * f_g\<rparr>"

definition grid_voltages :: "FrequencyConverter \<Rightarrow> real \<Rightarrow> real list" where
  "grid_voltages self t =
     (let theta_g = w_g self * t
      in map (\<lambda>x. u_g self * x)
           [cos theta_g, cos (theta_g - 2 * pi / 3), cos (theta_g - 4 * pi / 3)])"

definition amax :: "real list \<Rightarrow> real" where
  "amax xs = Max (set xs)"

definition amin :: "real list \<Rightarrow> real" where
  "amin xs = Min (set xs)"

text \<open>
  \<^verbatim>\<open>FrequencyConverter.f\<close>: the state derivatives \<^verbatim>\<open>[d_u_dc, d_i_L]\<close>. The source tests
  \<^verbatim>\<open>i_L < 0 and d_i_L < 0\<close> before it zeroes the inductor-current derivative.
\<close>

definition FrequencyConverter_f :: "FrequencyConverter \<Rightarrow> real \<Rightarrow> real \<Rightarrow> real \<Rightarrow> real \<Rightarrow> error + real list" where
  "FrequencyConverter_f self t u_dc i_L i_dc =
     (let u_g_abc = grid_voltages self t;
          u_di = amax u_g_abc - amin u_g_abc
      in bind_err (div_real (i_L - i_dc) (C self)) (\<lambda>d_u_dc.
         bind_err (div_real (u_di - u_dc) (L self)) (\<lambda>d_i_L.
           let d_i_L = (if i_L < 0 \<and> d_i_L < 0 then 0 else d_i_L)
           in Inr [d_u_dc, d_i_L])))"

section \<open>Induction-machine observers (\<^verbatim>\<open>control/im/_common.py\<close>)\<close>

text \<open>
  \<^verbatim>\<open>ModelPars\<close> is a dataclass that is not frozen: its six declared fields come first.
  \<^verbatim>\<open>FullOrderObserver.output\<close> assigns two further attributes, \<^verbatim>\<open>R_sgm\<close> and
  \<^verbatim>\<open>alpha\<close>, on the object; they are \<open>None\<close> while the object does not carry them.
\<close>

record ModelPars =
  R_s :: real
  R_R :: real
  L_sgm :: real
  L_M :: real
  n_p :: int
  J :: real
  R_sgm :: "real option"
  alpha :: "real option"

text \<open>
  The gain namespace built by \<^verbatim>\<open>__post_init__\<close>: \<^verbatim>\<open>alpha_o\<close> and the callable
  \<^verbatim>\<open>k_o\<close>, a function of the rotor speed; \<^verbatim>\<open>FullOrderObserverPars\<close> adds
  \<^verbatim>\<open>alpha_i\<close> and \<^verbatim>\<open>g\<close>.
\<close>

record Gain =
  alpha_o :: real
  k_o :: "real \<Rightarrow> complex"

record FullGain = Gain +
  alpha_i :: real
  g :: real

record 'g ObserverPars =
  model_par :: ModelPars
  pars_T_s :: real
  pars_sensorless :: bool
  pars_gain :: 'g

record State =
  psi_R :: real
  theta_s :: real
  w_m :: real

record FullState = State +
  i_s :: complex

record Work =
  d_psi_R :: real
  d_w_m :: real

record ReducedWork = Work +
  old_i_s :: complex

record FullWork = Work +
  d_i_s :: complex

text \<open>The feedback namespace \<^verbatim>\<open>fbk\<close>: measured signals in, estimates added by \<^verbatim>\<open>output\<close>.\<close>

record Fbk =
  fbk_u_ss :: complex
  fbk_i_ss :: complex
  fbk_w_m :: real
  fbk_psi_R :: real
  fbk_theta_s :: real
  fbk_i_s :: complex
  fbk_u_s :: complex
  fbk_psi_s :: complex
  fbk_w_s :: real
  fbk_w_r :: real

text \<open>
  Modelled from the spec: \<^verbatim>\<open>wrap\<close> is imported from \<^verbatim>\<open>motulator._helpers\<close>, which is
  not among the sources. The spec says that the angle is wrapped into \<open>(-\<pi>, \<pi>]\<close>: the
  value below is the angle that differs from \<open>theta\<close> by a multiple of \<open>2\<pi>\<close> and lies in
  that interval.
\<close>

definition wrap :: "real \<Rightarrow> real" where
  "wrap theta = theta - 2 * pi * of_int \<lceil>(theta - pi) / (2 * pi)\<rceil>"

subsection \<open>Reduced-order observer\<close>

record Observer =
  par :: ModelPars
  sensorless :: bool
  T_s :: real
  gain :: Gain
  state :: State
  work :: ReducedWork

definition Observer_init :: "Gain ObserverPars \<Rightarrow> Observer" where
  "Observer_init observer_par =
     \<lparr>par = model_par observer_par,
      sensorless = pars_sensorless observer_par,
      T_s = pars_T_s observer_par,
      gain = pars_gain observer_par,
      state = \<lparr>psi_R = 0, theta_s = 0, w_m = 0\<rparr>,
      work = \<lparr>d_psi_R = 0, d_w_m = 0, old_i_s = 0\<rparr>\<rparr>"

text \<open>The observer gains \<^verbatim>\<open>(k_o1, k_o2)\<close> of \<^verbatim>\<open>Observer.output\<close> (lines 185 to 190).\<close>

definition Observer_gains :: "Observer \<Rightarrow> real \<Rightarrow> complex \<times> complex" where
  "Observer_gains self w =
     (if sensorless self then (let k_o1 = k_o (gain self) w; k_o2 = k_o1 in (k_o1, k_o2))
      else (k_o (gain self) w, 0))"

text \<open>
  The denominator \<^verbatim>\<open>den\<close> of \<^verbatim>\<open>Observer.output\<close> (lines 193 and 194), from the feedback
  record that already holds \<^verbatim>\<open>psi_R\<close>, \<^verbatim>\<open>w_m\<close> and the rotated current \<^verbatim>\<open>i_s\<close>.
\<close>

definition Observer_den :: "Observer \<Rightarrow> Fbk \<Rightarrow> real" where
  "Observer_den self fbk =
     (let (k_o1, k_o2) = Observer_gains self (fbk_w_m fbk)
      in fbk_psi_R fbk +
         L_sgm (par self) * Re ((1 - k_o1) * fbk_i_s fbk + k_o2 * cnj (fbk_i_s fbk)))"

text \<open>
  The first assignments of \<^verbatim>\<open>Observer.output\<close> (lines 165 to 175): the estimates are
  copied into \<^verbatim>\<open>fbk\<close>, and the current and the voltage are rotated into estimated rotor
  flux coordinates.
\<close>

definition Observer_estimates :: "Observer \<Rightarrow> Fbk \<Rightarrow> Fbk" where
  "Observer_estimates self fbk =
     (let par = par self;
          fbk = fbk\<lparr>fbk_psi_R := psi_R (state self), fbk_theta_s := theta_s (state self)\<rparr>;
          fbk = fbk\<lparr>fbk_w_m := (if sensorless self then w_m (state self) else fbk_w_m fbk)\<rparr>;
          fbk = fbk\<lparr>fbk_i_s := exp (- \<i> * complex_of_real (fbk_theta_s fbk)) * fbk_i_ss fbk\<rparr>;
          fbk = fbk\<lparr>fbk_u_s := exp (- \<i> * complex_of_real (fbk_theta_s fbk)) * fbk_u_ss fbk\<rparr>
      in fbk\<lparr>fbk_psi_s := complex_of_real (L_sgm par) * fbk_i_s fbk
                            + complex_of_real (fbk_psi_R fbk)\<rparr>)"

definition Observer_output :: "Observer \<Rightarrow> Fbk \<Rightarrow> error + (Observer \<times> Fbk)" where
  "Observer_output self fbk =
     (let par = par self;
          fbk = Observer_estimates self fbk
      in bind_err (div_complex (fbk_i_s fbk - old_i_s (work self)) (T_s self)) (\<lambda>d_i_s.
         let v_s = fbk_u_s fbk - complex_of_real (R_s par) * fbk_i_s fbk
                   - complex_of_real (L_sgm par) * d_i_s
         in bind_err (div_real (R_R par) (L_M par)) (\<lambda>a.
         let v_r = complex_of_real (R_R par) * fbk_i_s fbk
                   - (complex_of_real a - \<i> * complex_of_real (fbk_w_m fbk))
                     * complex_of_real (fbk_psi_R fbk);
             (k_o1, k_o2) = Observer_gains self (fbk_w_m fbk);
             den = Observer_den self fbk;
             num = Im (v_s + k_o1 * (v_r - v_s) + k_o2 * cnj (v_r - v_s))
         in bind_err (if den > 0 then div_real num den else Inr (fbk_w_m fbk)) (\<lambda>w_s.
            bind_err (if fbk_psi_R fbk > 0
                      then div_real (R_R par * Im (fbk_i_s fbk)) (fbk_psi_R fbk)
                      else Inr 0) (\<lambda>w_r.
            let fbk = fbk\<lparr>fbk_w_s := w_s, fbk_w_r := w_r\<rparr>;
                v = v_s - \<i> * complex_of_real w_s * complex_of_real (L_sgm par) * fbk_i_s fbk;
                work = (work self)
                  \<lparr>d_psi_R := Re (v + k_o1 * (v_r - v) + k_o2 * cnj (v_r - v)),
                   d_w_m := alpha_o (gain self) * (w_s - w_r - fbk_w_m fbk)\<rparr>
            in Inr (self\<lparr>work := work\<rparr>, fbk))))))"

definition Observer_update :: "Observer \<Rightarrow> real \<Rightarrow> Fbk \<Rightarrow> Observer" where
  "Observer_update self T fbk =
     self\<lparr>state := (state self)
             \<lparr>psi_R := psi_R (state self) + T * d_psi_R (work self),
              theta_s := wrap (theta_s (state self) + T * fbk_w_s fbk),
              w_m := w_m (state self) + T * d_w_m (work self)\<rparr>,
          T_s := T,
          work := (work self)\<lparr>old_i_s := fbk_i_s fbk\<rparr>\<rparr>"

subsection \<open>Full-order observer\<close>

record FullOrderObserver =
  fo_par :: ModelPars
  fo_sensorless :: bool
  fo_gain :: FullGain
  fo_state :: FullState
  fo_work :: FullWork

definition FullOrderObserver_init :: "FullGain ObserverPars \<Rightarrow> error + FullOrderObserver" where
  "FullOrderObserver_init observer_par =
     (let self = \<lparr>fo_par = model_par observer_par,
                  fo_sensorless = pars_sensorless observer_par,
                  fo_gain = pars_gain observer_par,
                  fo_state = \<lparr>psi_R = 0, theta_s = 0, w_m = 0, i_s = 0\<rparr>,
                  fo_work = \<lparr>d_psi_R = 0, d_w_m = 0, d_i_s = 0\<rparr>\<rparr>
      in if \<not> fo_sensorless self then Inl NotImplementedError else Inr self)"

text \<open>
  The current estimation error \<^verbatim>\<open>err_i_s\<close>, the speed estimate \<^verbatim>\<open>w_m\<close> of the PI-type
  speed adaptation (proportional term plus the integral state) and the denominator
  \<^verbatim>\<open>den\<close> of \<^verbatim>\<open>FullOrderObserver.output\<close> (lines 309 to 318), from the feedback record
  that already holds \<^verbatim>\<open>psi_R\<close> and the rotated current \<^verbatim>\<open>i_s\<close>.
\<close>

definition FullOrderObserver_err_i_s :: "FullOrderObserver \<Rightarrow> Fbk \<Rightarrow> complex" where
  "FullOrderObserver_err_i_s self fbk = fbk_i_s fbk - i_s (fo_state self)"

definition FullOrderObserver_w_m :: "FullOrderObserver \<Rightarrow> Fbk \<Rightarrow> error + real" where
  "FullOrderObserver_w_m self fbk =
     (let err_i_s = FullOrderObserver_err_i_s self fbk
      in bind_err (if fbk_psi_R fbk > 0
                   then div_real (- alpha_o (fo_gain self) * L_sgm (fo_par self) * Im err_i_s)
                          (fbk_psi_R fbk)
                   else Inr 0) (\<lambda>p_term.
         Inr (p_term + w_m (fo_state self))))"

definition FullOrderObserver_den :: "FullOrderObserver \<Rightarrow> Fbk \<Rightarrow> real" where
  "FullOrderObserver_den self fbk =
     fbk_psi_R fbk - L_sgm (fo_par self) * Re (FullOrderObserver_err_i_s self fbk)"

text \<open>
  The assignments of \<^verbatim>\<open>FullOrderObserver.output\<close> that fill \<^verbatim>\<open>fbk\<close> (lines 298 to
  306): the estimates, the rotated current and voltage, and the stator flux estimate.
\<close>

definition FullOrderObserver_estimates :: "FullOrderObserver \<Rightarrow> Fbk \<Rightarrow> Fbk" where
  "FullOrderObserver_estimates self fbk =
     (let par = fo_par self;
          fbk = fbk\<lparr>fbk_psi_R := psi_R (fo_state self),
                    fbk_theta_s := theta_s (fo_state self)\<rparr>;
          fbk = fbk\<lparr>fbk_w_m := w_m (fo_state self)\<rparr>;
          fbk = fbk\<lparr>fbk_i_s := exp (- \<i> * complex_of_real (fbk_theta_s fbk)) * fbk_i_ss fbk\<rparr>;
          fbk = fbk\<lparr>fbk_u_s := exp (- \<i> * complex_of_real (fbk_theta_s fbk)) * fbk_u_ss fbk\<rparr>
      in fbk\<lparr>fbk_psi_s := complex_of_real (L_sgm par) * i_s (fo_state self)
                            + complex_of_real (fbk_psi_R fbk)\<rparr>)"

text \<open>
  \<^verbatim>\<open>FullOrderObserver.output\<close> starts by assigning \<^verbatim>\<open>par.R_sgm\<close> and \<^verbatim>\<open>par.alpha\<close>:
  \<^verbatim>\<open>par\<close> is the object that was supplied at construction, so the assignment is
  returned as the new \<open>fo_par\<close>. The two values are read back as \<open>r_sgm\<close> and \<open>a\<close>.
\<close>

definition FullOrderObserver_output ::
    "FullOrderObserver \<Rightarrow> Fbk \<Rightarrow> error + (FullOrderObserver \<times> Fbk)" where
  "FullOrderObserver_output self fbk =
     (let par = fo_par self;
          gain = fo_gain self;
          r_sgm = R_s par + R_R par;
          par = par\<lparr>R_sgm := Some r_sgm\<rparr>
      in bind_err (div_real (R_R par) (L_M par)) (\<lambda>a.
         let par = par\<lparr>alpha := Some a\<rparr>;
             fbk = FullOrderObserver_estimates self fbk;
             err_i_s = FullOrderObserver_err_i_s self fbk
         in bind_err (FullOrderObserver_w_m self fbk) (\<lambda>w_m'.
            let den = FullOrderObserver_den self fbk;
                num = R_R par * Im (fbk_i_s fbk)
                      + L_sgm par * (alpha_i gain * Im (k_o gain w_m') * Re err_i_s
                                     - g gain * Im err_i_s)
            in bind_err (if den > 0
                         then bind_err (div_real num den) (\<lambda>q. Inr (w_m' + q))
                         else Inr w_m') (\<lambda>w_s.
               let fbk = fbk\<lparr>fbk_w_s := w_s\<rparr>;
                   k_i = complex_of_real (L_sgm par)
                           * (complex_of_real (g gain) - \<i> * complex_of_real (w_s - w_m'))
                         - complex_of_real r_sgm
               in bind_err
                    (div_complex
                       (fbk_u_s fbk
                        - (complex_of_real r_sgm
                           + \<i> * complex_of_real w_s * complex_of_real (L_sgm par))
                          * i_s (fo_state self)
                        + (complex_of_real a - \<i> * complex_of_real w_m')
                          * complex_of_real (fbk_psi_R fbk)
                        + k_i * err_i_s)
                       (L_sgm par)) (\<lambda>d_i_s'.
                  let d_psi_R' = - a * fbk_psi_R fbk + R_R par * Re (fbk_i_s fbk)
                        + (alpha_i gain * Re (k_o gain w_m') - g gain) * L_sgm par * Re err_i_s
                        - (w_s - w_m') * L_sgm par * Im err_i_s
                  in bind_err (if fbk_psi_R fbk > 0
                               then div_real
                                      (- alpha_o gain * alpha_i gain * L_sgm par * Im err_i_s)
                                      (fbk_psi_R fbk)
                               else Inr 0) (\<lambda>d_w_m'.
                     Inr (self\<lparr>fo_par := par,
                               fo_work := \<lparr>d_psi_R = d_psi_R', d_w_m = d_w_m',
                                           d_i_s = d_i_s'\<rparr>\<rparr>,
                          fbk)))))))"

definition FullOrderObserver_update :: "FullOrderObserver \<Rightarrow> real \<Rightarrow> Fbk \<Rightarrow> FullOrderObserver" where
  "FullOrderObserver_update self T fbk =
     self\<lparr>fo_state := (fo_state self)
             \<lparr>i_s := i_s (fo_state self) + complex_of_real T * d_i_s (fo_work self),
              psi_R := psi_R (fo_state self) + T * d_psi_R (fo_work self),
              w_m := w_m (fo_state self) + T * d_w_m (fo_work self),
              theta_s := wrap (theta_s (fo_state self) + T * fbk_w_s fbk)\<rparr>\<rparr>"

section \<open>Example configurations\<close>

text \<open>
  The converter of \<^verbatim>\<open>examples/vector/plot_vector_ctrl_pmsm_2kw_diode.py\<close>:
  \<^verbatim>\<open>FrequencyConverter(L=2e-3, C=235e-6, U_g=400, f_g=50)\<close>.
\<close>

definition example_converter :: FrequencyConverter where
  "example_converter = FrequencyConverter_init (2 / 1000) (235 / 1000000) 400 50"

text \<open>
  An induction machine, a feedback namespace that holds the measured signals only, and
  observers with the constant gains named in the notes of \<^verbatim>\<open>ObserverPars\<close>: the current
  model \<^verbatim>\<open>k_o = lambda w_m: 1\<close> and the pure voltage model \<^verbatim>\<open>k_o = lambda w_m: 0\<close>.
\<close>

definition example_par :: ModelPars where
  "example_par = \<lparr>R_s = 4, R_R = 2, L_sgm = 1 / 50, L_M = 1 / 5, n_p = 2, J = 3 / 200,
                   R_sgm = None, alpha = None\<rparr>"

definition measured :: "complex \<Rightarrow> complex \<Rightarrow> real \<Rightarrow> Fbk" where
  "measured u i w =
     \<lparr>fbk_u_ss = u, fbk_i_ss = i, fbk_w_m = w, fbk_psi_R = 0, fbk_theta_s = 0,
      fbk_i_s = 0, fbk_u_s = 0, fbk_psi_s = 0, fbk_w_s = 0, fbk_w_r = 0\<rparr>"

definition sensored_current_model :: Observer where
  "sensored_current_model = Observer_init
     \<lparr>model_par = example_par, pars_T_s = 1 / 4000, pars_sensorless = False,
      pars_gain = \<lparr>alpha_o = 250, k_o = (\<lambda>w_m. 1)\<rparr>\<rparr>"

definition sensorless_voltage_model :: Observer where
  "sensorless_voltage_model = Observer_init
     \<lparr>model_par = example_par, pars_T_s = 1 / 4000, pars_sensorless = True,
      pars_gain = \<lparr>alpha_o = 250, k_o = (\<lambda>w_m. 0)\<rparr>\<rparr>"

definition full_order_pars :: "bool \<Rightarrow> FullGain ObserverPars" where
  "full_order_pars sl =
     \<lparr>model_par = example_par, pars_T_s = 1 / 4000, pars_sensorless = sl,
      pars_gain = \<lparr>alpha_o = 250, k_o = (\<lambda>w_m. 1), alpha_i = 2500, g = 2490\<rparr>\<rparr>"

definition full_order_example :: FullOrderObserver where
  "full_order_example =
     \<lparr>fo_par = example_par, fo_sensorless = True,
      fo_gain = \<lparr>alpha_o = 250, k_o = (\<lambda>w_m. 1), alpha_i = 2500, g = 2490\<rparr>,
      fo_state = \<lparr>psi_R = 0, theta_s = 0, w_m = 0, i_s = 0\<rparr>,
      fo_work = \<lparr>d_psi_R = 0, d_w_m = 0, d_i_s = 0\<rparr>\<rparr>"

text \<open>
  The full-order observer after one cycle: the state that \<^verbatim>\<open>update\<close> leaves when the first
  \<^verbatim>\<open>output\<close> was called with \<open>u_ss = \<i>\<close> and \<open>i_ss = 1\<close>, for the sampling period
  \<open>1 / 4000\<close>.
\<close>

definition full_order_second_cycle :: FullOrderObserver where
  "full_order_second_cycle =
     FullOrderObserver_update
       (full_order_example
          \<lparr>fo_par := example_par\<lparr>R_sgm := Some 6, alpha := Some 10\<rparr>,
           fo_work := \<lparr>d_psi_R = 11 / 5, d_w_m = 0, d_i_s = 2190 + 50 * \<i>\<rparr>\<rparr>)
       (1 / 4000)
       ((measured \<i> 1 0)\<lparr>fbk_i_s := 1, fbk_u_s := \<i>\<rparr>)"

section \<open>Results of the checked operations\<close>

lemma bind_err_Inr_iff: "bind_err m k = Inr y \<longleftrightarrow> (\<exists>x. m = Inr x \<and> k x = Inr y)"
  by (cases m) (simp_all add: bind_err_def)

lemma div_real_Inr_iff: "div_real a b = Inr q \<longleftrightarrow> b \<noteq> 0 \<and> q = a / b"
  by (auto simp add: div_real_def)

lemma div_complex_Inr_iff: "div_complex a b = Inr q \<longleftrightarrow> b \<noteq> 0 \<and> q = a / complex_of_real b"
  by (auto simp add: div_complex_def)

lemma guarded_div_Inr_iff:
  "(if 0 < b then div_real a b else Inr d) = Inr q \<longleftrightarrow> q = (if 0 < b then a / b else d)"
  by (auto simp add: div_real_def)

lemma guarded_add_Inr_iff:
  "(if 0 < b then bind_err (div_real a b) (\<lambda>q. Inr (w + q)) else Inr w) = Inr r
     \<longleftrightarrow> r = (if 0 < b then w + a / b else w)"
  by (auto simp add: div_real_def bind_err_def)

subsection \<open>Reduced-order observer\<close>

lemma Observer_estimates_simps:
  "fbk_psi_R (Observer_estimates self fbk) = psi_R (state self)"
  "fbk_theta_s (Observer_estimates self fbk) = theta_s (state self)"
  "fbk_w_m (Observer_estimates self fbk)
     = (if sensorless self then w_m (state self) else fbk_w_m fbk)"
  "fbk_i_s (Observer_estimates self fbk)
     = exp (- \<i> * complex_of_real (theta_s (state self))) * fbk_i_ss fbk"
  "fbk_u_s (Observer_estimates self fbk)
     = exp (- \<i> * complex_of_real (theta_s (state self))) * fbk_u_ss fbk"
  by (simp_all add: Observer_estimates_def Let_def)

lemma Observer_den_upd:
  "Observer_den self (fbk\<lparr>fbk_w_s := a, fbk_w_r := b\<rparr>) = Observer_den self fbk"
  by (simp add: Observer_den_def)

lemma Observer_output_Inr:
  assumes "Observer_output self fbk = Inr (self', fbk')"
  shows "fbk_psi_R fbk' = psi_R (state self)"
    and "fbk_theta_s fbk' = theta_s (state self)"
    and "fbk_w_m fbk' = (if sensorless self then w_m (state self) else fbk_w_m fbk)"
    and "fbk_i_s fbk' = exp (- \<i> * complex_of_real (theta_s (state self))) * fbk_i_ss fbk"
    and "Observer_den self fbk' \<le> 0 \<Longrightarrow> fbk_w_s fbk' = fbk_w_m fbk'"
    and "fbk_w_r fbk' = (if 0 < psi_R (state self)
                         then R_R (par self) * Im (fbk_i_s fbk') / psi_R (state self) else 0)"
    and "T_s self \<noteq> 0" and "L_M (par self) \<noteq> 0"
    and "state self' = state self" and "par self' = par self"
  using assms
  unfolding Observer_output_def Let_def split_def bind_err_Inr_iff guarded_div_Inr_iff
    div_real_Inr_iff div_complex_Inr_iff
  by (clarsimp simp add: Observer_estimates_simps Observer_den_upd)+

lemma Observer_output_total:
  assumes "T_s self \<noteq> 0" "L_M (par self) \<noteq> 0"
  shows "\<exists>r. Observer_output self fbk = Inr r"
  using assms
  unfolding Observer_output_def Let_def split_def bind_err_Inr_iff guarded_div_Inr_iff
    div_real_Inr_iff div_complex_Inr_iff
  by simp

subsection \<open>Full-order observer\<close>

lemma FullOrderObserver_w_m_Inr_iff:
  "FullOrderObserver_w_m self fbk = Inr w \<longleftrightarrow>
     w = (if 0 < fbk_psi_R fbk
          then - alpha_o (fo_gain self) * L_sgm (fo_par self)
                 * Im (FullOrderObserver_err_i_s self fbk) / fbk_psi_R fbk
          else 0) + w_m (fo_state self)"
  by (auto simp add: FullOrderObserver_w_m_def Let_def bind_err_def div_real_def)

lemma FullOrderObserver_estimates_simps:
  "fbk_psi_R (FullOrderObserver_estimates self fbk) = psi_R (fo_state self)"
  "fbk_theta_s (FullOrderObserver_estimates self fbk) = theta_s (fo_state self)"
  "fbk_w_m (FullOrderObserver_estimates self fbk) = w_m (fo_state self)"
  "fbk_i_s (FullOrderObserver_estimates self fbk)
     = exp (- \<i> * complex_of_real (theta_s (fo_state self))) * fbk_i_ss fbk"
  "fbk_u_s (FullOrderObserver_estimates self fbk)
     = exp (- \<i> * complex_of_real (theta_s (fo_state self))) * fbk_u_ss fbk"
  by (simp_all add: FullOrderObserver_estimates_def Let_def)

lemma FullOrderObserver_upd_w_s:
  "FullOrderObserver_err_i_s self (fbk\<lparr>fbk_w_s := a\<rparr>) = FullOrderObserver_err_i_s self fbk"
  "FullOrderObserver_den self (fbk\<lparr>fbk_w_s := a\<rparr>) = FullOrderObserver_den self fbk"
  "FullOrderObserver_w_m self (fbk\<lparr>fbk_w_s := a\<rparr>) = FullOrderObserver_w_m self fbk"
  by (simp_all add: FullOrderObserver_err_i_s_def FullOrderObserver_den_def
      FullOrderObserver_w_m_def)

lemma FullOrderObserver_output_Inr:
  assumes "FullOrderObserver_output self fbk = Inr (self', fbk')"
  shows "fbk_psi_R fbk' = psi_R (fo_state self)"
    and "fbk_theta_s fbk' = theta_s (fo_state self)"
    and "fbk_w_m fbk' = w_m (fo_state self)"
    and "fbk_i_s fbk' = exp (- \<i> * complex_of_real (theta_s (fo_state self))) * fbk_i_ss fbk"
    and "FullOrderObserver_den self fbk' \<le> 0
           \<Longrightarrow> FullOrderObserver_w_m self fbk' = Inr (fbk_w_s fbk')"
    and "L_M (fo_par self) \<noteq> 0" and "L_sgm (fo_par self) \<noteq> 0"
    and "fo_state self' = fo_state self"
    and "fo_par self' = (fo_par self)\<lparr>R_sgm := Some (R_s (fo_par self) + R_R (fo_par self)),
                                      alpha := Some (R_R (fo_par self) / L_M (fo_par self))\<rparr>"
  using assms
  unfolding FullOrderObserver_output_def Let_def bind_err_Inr_iff guarded_div_Inr_iff
    guarded_add_Inr_iff div_real_Inr_iff div_complex_Inr_iff FullOrderObserver_w_m_Inr_iff
  by (clarsimp simp add: FullOrderObserver_estimates_simps FullOrderObserver_upd_w_s
        FullOrderObserver_w_m_Inr_iff)+

lemma FullOrderObserver_output_total:
  assumes "L_M (fo_par self) \<noteq> 0" "L_sgm (fo_par self) \<noteq> 0"
  shows "\<exists>r. FullOrderObserver_output self fbk = Inr r"
  using assms
  unfolding FullOrderObserver_output_def Let_def bind_err_Inr_iff guarded_div_Inr_iff
    guarded_add_Inr_iff div_real_Inr_iff div_complex_Inr_iff FullOrderObserver_w_m_Inr_iff
  by simp

subsection \<open>The wrapped angle\<close>

lemma wrap_range: "- pi < wrap theta \<and> wrap theta \<le> pi"
proof -
  define k where "k = \<lceil>(theta - pi) / (2 * pi)\<rceil>"
  have "of_int k - 1 < (theta - pi) / (2 * pi)" "(theta - pi) / (2 * pi) \<le> of_int k"
    unfolding k_def by linarith+
  then have "(of_int k - 1) * (2 * pi) < theta - pi" "theta - pi \<le> of_int k * (2 * pi)"
    by (simp_all add: pos_less_divide_eq pos_divide_le_eq)
  then show ?thesis unfolding wrap_def k_def[symmetric] by (simp add: algebra_simps)
qed

lemma wrap_0: "wrap 0 = 0"
proof -
  have "\<lceil>- (1 / 2) :: real\<rceil> = 0" by (rule ceiling_unique) simp_all
  moreover have "(0 - pi) / (2 * pi) = - (1 / 2)" by (simp add: field_simps)
  ultimately show ?thesis by (simp add: wrap_def)
qed

subsection \<open>The diode bridge at the start of a simulation\<close>

lemma cos_240: "cos (4 * pi / 3) = - 1 / 2"
proof -
  have "cos (4 * pi / 3) = cos (2 * pi - 2 * pi / 3)" by (simp add: field_simps)
  also have "\<dots> = cos (2 * pi / 3)" by (simp only: cos_2pi_minus)
  finally show ?thesis by (simp add: cos_120)
qed

lemma grid_voltages_example_0:
  "grid_voltages example_converter 0
     = [400 * sqrt (2 / 3), - (200 * sqrt (2 / 3)), - (200 * sqrt (2 / 3))]"
  by (simp add: grid_voltages_def example_converter_def FrequencyConverter_init_def
      cos_120 cos_240)

lemma rectified_below_dc_bus: "600 * sqrt (2 / 3) < 400 * sqrt 2"
proof -
  have "(600 * sqrt (2 / 3))\<^sup>2 < (400 * sqrt 2)\<^sup>2" by (simp add: power_mult_distrib)
  then show ?thesis by (rule power2_less_imp_less) simp
qed

subsection \<open>The examples evaluated\<close>

lemmas example_defs = sensored_current_model_def sensorless_voltage_model_def
  full_order_example_def full_order_pars_def Observer_init_def example_par_def measured_def

lemmas output_defs = Observer_output_def Observer_estimates_def Observer_den_def
  Observer_gains_def FullOrderObserver_output_def FullOrderObserver_estimates_def
  FullOrderObserver_den_def FullOrderObserver_w_m_def FullOrderObserver_err_i_s_def
  Let_def bind_err_def div_real_def div_complex_def

lemma sensored_current_model_output:
  "Observer_output sensored_current_model (measured \<i> 1 0)
     = Inr (sensored_current_model\<lparr>work := \<lparr>d_psi_R = 2, d_w_m = 0, old_i_s = 0\<rparr>\<rparr>,
            (measured \<i> 1 0)\<lparr>fbk_i_s := 1, fbk_u_s := \<i>, fbk_psi_s := 1 / 50\<rparr>)"
  by (simp add: example_defs output_defs)

lemma full_order_example_output:
  "FullOrderObserver_output full_order_example (measured \<i> 1 0)
     = Inr (full_order_example
              \<lparr>fo_par := example_par\<lparr>R_sgm := Some 6, alpha := Some 10\<rparr>,
               fo_work := \<lparr>d_psi_R = 11 / 5, d_w_m = 0, d_i_s = 2190 + 50 * \<i>\<rparr>\<rparr>,
            (measured \<i> 1 0)\<lparr>fbk_i_s := 1, fbk_u_s := \<i>\<rparr>)"
  by (simp add: example_defs output_defs)

lemma sensorless_voltage_model_output:
  "Observer_output sensorless_voltage_model (measured \<i> 1 0)
     = Inr (sensorless_voltage_model\<lparr>work := \<lparr>d_psi_R = - 84, d_w_m = 12500, old_i_s = 0\<rparr>\<rparr>,
            (measured \<i> 1 0)\<lparr>fbk_i_s := 1, fbk_u_s := \<i>, fbk_psi_s := 1 / 50, fbk_w_s := 50\<rparr>)"
  by (simp add: example_defs output_defs)

lemma flux_established_output:
  "Observer_output (sensored_current_model\<lparr>state := \<lparr>psi_R = 1 / 2, theta_s = 0, w_m = 0\<rparr>\<rparr>)
       (measured \<i> (1 + \<i>) 0)
     = Inr (sensored_current_model
              \<lparr>state := \<lparr>psi_R = 1 / 2, theta_s = 0, w_m = 0\<rparr>,
               work := \<lparr>d_psi_R = - 3, d_w_m = 0, old_i_s = 0\<rparr>\<rparr>,
            (measured \<i> (1 + \<i>) 0)
              \<lparr>fbk_psi_R := 1 / 2, fbk_i_s := 1 + \<i>, fbk_u_s := \<i>,
               fbk_psi_s := (1 + \<i>) / 50 + 1 / 2, fbk_w_s := 4, fbk_w_r := 4\<rparr>)"
  by (simp add: example_defs output_defs)

lemma sensored_current_model_output_neg:
  "Observer_output sensored_current_model (measured 0 (- 1) 0)
     = Inr (sensored_current_model\<lparr>work := \<lparr>d_psi_R = - 2, d_w_m = 0, old_i_s = 0\<rparr>\<rparr>,
            (measured 0 (- 1) 0)\<lparr>fbk_i_s := - 1, fbk_psi_s := - (1 / 50)\<rparr>)"
  by (simp add: example_defs output_defs)

lemma FrequencyConverter_f_zero_current:
  assumes "L self \<noteq> 0" "C self \<noteq> 0"
  shows "FrequencyConverter_f self t u_dc 0 i_dc
     = Inr [- i_dc / C self,
            (amax (grid_voltages self t) - amin (grid_voltages self t) - u_dc) / L self]"
  using assms by (simp add: FrequencyConverter_f_def Let_def bind_err_def div_real_def)

lemma full_order_init_example:
  "FullOrderObserver_init (full_order_pars True) = Inr full_order_example"
  by (simp add: FullOrderObserver_init_def full_order_pars_def full_order_example_def Let_def)

lemma FullOrderObserver_estimates_w_m:
  "FullOrderObserver_estimates self (fbk\<lparr>fbk_w_m := w\<rparr>) = FullOrderObserver_estimates self fbk"
  by (simp add: FullOrderObserver_estimates_def Let_def)

lemma full_order_second_cycle_eq:
  "full_order_second_cycle =
     \<lparr>fo_par = example_par\<lparr>R_sgm := Some 6, alpha := Some 10\<rparr>, fo_sensorless = True,
      fo_gain = \<lparr>alpha_o = 250, k_o = (\<lambda>w_m. 1), alpha_i = 2500, g = 2490\<rparr>,
      fo_state = \<lparr>psi_R = 11 / 20000, theta_s = 0, w_m = 0, i_s = 219 / 400 + \<i> / 80\<rparr>,
      fo_work = \<lparr>d_psi_R = 11 / 5, d_w_m = 0, d_i_s = 2190 + 50 * \<i>\<rparr>\<rparr>"
  by (simp add: full_order_second_cycle_def FullOrderObserver_update_def example_defs wrap_0
      complex_eq_iff)

lemma full_order_second_cycle_output:
  "FullOrderObserver_output full_order_second_cycle (measured \<i> 1 0)
     = Inr (full_order_second_cycle
              \<lparr>fo_work := \<lparr>d_psi_R = 417 / 200, d_w_m = 3125000 / 11,
                           d_i_s = 72901 / 88 - 4089 / 88 * \<i>\<rparr>\<rparr>,
            (measured \<i> 1 0)
              \<lparr>fbk_psi_R := 11 / 20000, fbk_i_s := 1, fbk_u_s := \<i>,
               fbk_psi_s := 23 / 2000 + \<i> / 4000, fbk_w_s := 1250 / 11\<rparr>)"
  apply (simp only: full_order_second_cycle_eq)
  apply (simp add: example_defs output_defs complex_eq_iff)
  done

section \<open>The frequency division is guarded\<close>

text \<open>
  C1, as stated: in both observers the division that computes \<open>w_s\<close> is guarded, and
  whenever the denominator is not positive \<open>w_s\<close> is exactly the current speed estimate.
  The full-order observer falls back to its local \<open>w_m\<close>, the speed estimate plus the
  proportional term of the speed adaptation. In its second cycle on the example
  (\<open>psi_R = 11 / 20000\<close> after the first one), the denominator is \<open>- 17 / 2000\<close> and the
  output returns \<open>w_s = 1250 / 11\<close>, while the speed estimate, in the state and as returned
  in \<open>fbk.w_m\<close>, is \<open>0\<close>.
\<close>

theorem FullOrderObserver_fallback_counterexample:
  "FullOrderObserver_output full_order_example (measured \<i> 1 0)
     = Inr (full_order_example
              \<lparr>fo_par := example_par\<lparr>R_sgm := Some 6, alpha := Some 10\<rparr>,
               fo_work := \<lparr>d_psi_R = 11 / 5, d_w_m = 0, d_i_s = 2190 + 50 * \<i>\<rparr>\<rparr>,
            (measured \<i> 1 0)\<lparr>fbk_i_s := 1, fbk_u_s := \<i>\<rparr>)
   \<and> full_order_second_cycle
       = FullOrderObserver_update
           (full_order_example
              \<lparr>fo_par := example_par\<lparr>R_sgm := Some 6, alpha := Some 10\<rparr>,
               fo_work := \<lparr>d_psi_R = 11 / 5, d_w_m = 0, d_i_s = 2190 + 50 * \<i>\<rparr>\<rparr>)
           (1 / 4000)
           ((measured \<i> 1 0)\<lparr>fbk_i_s := 1, fbk_u_s := \<i>\<rparr>)
   \<and> FullOrderObserver_output full_order_second_cycle (measured \<i> 1 0)
       = Inr (full_order_second_cycle
                \<lparr>fo_work := \<lparr>d_psi_R = 417 / 200, d_w_m = 3125000 / 11,
                             d_i_s = 72901 / 88 - 4089 / 88 * \<i>\<rparr>\<rparr>,
              (measured \<i> 1 0)
                \<lparr>fbk_psi_R := 11 / 20000, fbk_i_s := 1, fbk_u_s := \<i>,
                 fbk_psi_s := 23 / 2000 + \<i> / 4000, fbk_w_s := 1250 / 11\<rparr>)
   \<and> FullOrderObserver_den full_order_second_cycle
        ((measured \<i> 1 0)
           \<lparr>fbk_psi_R := 11 / 20000, fbk_i_s := 1, fbk_u_s := \<i>,
            fbk_psi_s := 23 / 2000 + \<i> / 4000, fbk_w_s := 1250 / 11\<rparr>) = - (17 / 2000)
   \<and> fbk_w_s ((measured \<i> 1 0)
           \<lparr>fbk_psi_R := 11 / 20000, fbk_i_s := 1, fbk_u_s := \<i>,
            fbk_psi_s := 23 / 2000 + \<i> / 4000, fbk_w_s := 1250 / 11\<rparr>) = 1250 / 11
   \<and> fbk_w_m ((measured \<i> 1 0)
           \<lparr>fbk_psi_R := 11 / 20000, fbk_i_s := 1, fbk_u_s := \<i>,
            fbk_psi_s := 23 / 2000 + \<i> / 4000, fbk_w_s := 1250 / 11\<rparr>) = 0
   \<and> w_m (fo_state full_order_second_cycle) = 0"
proof -
  have d: "FullOrderObserver_den full_order_second_cycle
        ((measured \<i> 1 0)
           \<lparr>fbk_psi_R := 11 / 20000, fbk_i_s := 1, fbk_u_s := \<i>,
            fbk_psi_s := 23 / 2000 + \<i> / 4000, fbk_w_s := 1250 / 11\<rparr>) = - (17 / 2000)"
    "w_m (fo_state full_order_second_cycle) = 0"
    by (simp_all add: full_order_second_cycle_eq FullOrderObserver_den_def
        FullOrderObserver_err_i_s_def measured_def example_par_def)
  show ?thesis
    using d full_order_example_output full_order_second_cycle_output
    by (simp add: full_order_second_cycle_def measured_def)
qed

text \<open>
  C1, amended: in both observers the division that computes \<open>w_s\<close> is guarded. The output
  returns for every feedback input (no division of it fails) once the parameters that
  are divisors are not zero: the sampling period and \<open>L_M\<close> in the reduced-order observer,
  \<open>L_M\<close> and \<open>L_sgm\<close> in the full-order one. Whenever the denominator \<open>den\<close> is not
  positive, \<open>w_s\<close> is exactly the speed estimate \<open>fbk.w_m\<close> in the reduced-order observer; in
  the full-order observer it is exactly the speed estimate \<open>w_m\<close> of the state plus the
  proportional term \<open>p_term\<close>, which is \<open>- alpha_o * L_sgm * Im err_i_s / psi_R\<close> when
  \<open>psi_R > 0\<close> and \<open>0\<close> otherwise.
\<close>

theorem output_frequency_division_guarded:
  "(T_s self \<noteq> 0 \<and> L_M (par self) \<noteq> 0 \<longrightarrow> (\<exists>r. Observer_output self fbk = Inr r))
   \<and> (Observer_output self fbk = Inr (self', fbk') \<and> Observer_den self fbk' \<le> 0
        \<longrightarrow> fbk_w_s fbk' = fbk_w_m fbk')
   \<and> (L_M (fo_par fo) \<noteq> 0 \<and> L_sgm (fo_par fo) \<noteq> 0
        \<longrightarrow> (\<exists>r. FullOrderObserver_output fo fbk = Inr r))
   \<and> (FullOrderObserver_output fo fbk = Inr (fo', fbk'')
        \<and> psi_R (fo_state fo) - L_sgm (fo_par fo) * Re (fbk_i_s fbk'' - i_s (fo_state fo)) \<le> 0
        \<longrightarrow> fbk_w_s fbk''
              = (if 0 < psi_R (fo_state fo)
                 then - alpha_o (fo_gain fo) * L_sgm (fo_par fo)
                        * Im (fbk_i_s fbk'' - i_s (fo_state fo)) / psi_R (fo_state fo)
                 else 0) + w_m (fo_state fo)
            \<and> fbk_w_m fbk'' = w_m (fo_state fo))"
proof -
  have "fbk_w_s fbk''
          = (if 0 < psi_R (fo_state fo)
             then - alpha_o (fo_gain fo) * L_sgm (fo_par fo)
                    * Im (fbk_i_s fbk'' - i_s (fo_state fo)) / psi_R (fo_state fo)
             else 0) + w_m (fo_state fo)
        \<and> fbk_w_m fbk'' = w_m (fo_state fo)"
    if out: "FullOrderObserver_output fo fbk = Inr (fo', fbk'')"
      and den: "psi_R (fo_state fo) - L_sgm (fo_par fo) * Re (fbk_i_s fbk'' - i_s (fo_state fo)) \<le> 0"
  proof -
    have p: "fbk_psi_R fbk'' = psi_R (fo_state fo)" and w: "fbk_w_m fbk'' = w_m (fo_state fo)"
      using FullOrderObserver_output_Inr(1,3) [OF out] by simp_all
    have "FullOrderObserver_den fo fbk'' \<le> 0"
      using den by (simp add: FullOrderObserver_den_def FullOrderObserver_err_i_s_def p)
    then have "FullOrderObserver_w_m fo fbk'' = Inr (fbk_w_s fbk'')"
      by (rule FullOrderObserver_output_Inr(5) [OF out])
    then show ?thesis
      using w by (simp add: FullOrderObserver_w_m_Inr_iff FullOrderObserver_err_i_s_def p)
  qed
  then show ?thesis
    using Observer_output_total [of self fbk] Observer_output_Inr(5) [of self fbk self' fbk']
      FullOrderObserver_output_total [of fo fbk]
    by blast
qed

theorem output_frequency_division_guarded_witness:
  "T_s sensored_current_model \<noteq> 0 \<and> L_M (par sensored_current_model) \<noteq> 0
   \<and> Observer_output sensored_current_model (measured \<i> 1 0)
       = Inr (sensored_current_model\<lparr>work := \<lparr>d_psi_R = 2, d_w_m = 0, old_i_s = 0\<rparr>\<rparr>,
              (measured \<i> 1 0)\<lparr>fbk_i_s := 1, fbk_u_s := \<i>, fbk_psi_s := 1 / 50\<rparr>)
   \<and> Observer_den sensored_current_model
        ((measured \<i> 1 0)\<lparr>fbk_i_s := 1, fbk_u_s := \<i>, fbk_psi_s := 1 / 50\<rparr>) \<le> 0
   \<and> fbk_w_s ((measured \<i> 1 0)\<lparr>fbk_i_s := 1, fbk_u_s := \<i>, fbk_psi_s := 1 / 50\<rparr>)
       = fbk_w_m ((measured \<i> 1 0)\<lparr>fbk_i_s := 1, fbk_u_s := \<i>, fbk_psi_s := 1 / 50\<rparr>)
   \<and> L_M (fo_par full_order_second_cycle) \<noteq> 0 \<and> L_sgm (fo_par full_order_second_cycle) \<noteq> 0
   \<and> FullOrderObserver_output full_order_second_cycle (measured \<i> 1 0)
       = Inr (full_order_second_cycle
                \<lparr>fo_work := \<lparr>d_psi_R = 417 / 200, d_w_m = 3125000 / 11,
                             d_i_s = 72901 / 88 - 4089 / 88 * \<i>\<rparr>\<rparr>,
              (measured \<i> 1 0)
                \<lparr>fbk_psi_R := 11 / 20000, fbk_i_s := 1, fbk_u_s := \<i>,
                 fbk_psi_s := 23 / 2000 + \<i> / 4000, fbk_w_s := 1250 / 11\<rparr>)
   \<and> psi_R (fo_state full_order_second_cycle)
       - L_sgm (fo_par full_order_second_cycle)
         * Re (1 - i_s (fo_state full_order_second_cycle)) \<le> 0
   \<and> 0 < psi_R (fo_state full_order_second_cycle)
   \<and> (1250 / 11 :: real)
       = - alpha_o (fo_gain full_order_second_cycle) * L_sgm (fo_par full_order_second_cycle)
           * Im (1 - i_s (fo_state full_order_second_cycle))
           / psi_R (fo_state full_order_second_cycle)
         + w_m (fo_state full_order_second_cycle)"
proof -
  let ?f1 = "(measured \<i> 1 0)\<lparr>fbk_i_s := 1, fbk_u_s := \<i>, fbk_psi_s := 1 / 50\<rparr>"
  let ?f2 = "(measured \<i> 1 0)
                \<lparr>fbk_psi_R := 11 / 20000, fbk_i_s := 1, fbk_u_s := \<i>,
                 fbk_psi_s := 23 / 2000 + \<i> / 4000, fbk_w_s := 1250 / 11\<rparr>"
  have p: "T_s sensored_current_model \<noteq> 0" "L_M (par sensored_current_model) \<noteq> 0"
    "L_M (fo_par full_order_second_cycle) \<noteq> 0" "L_sgm (fo_par full_order_second_cycle) \<noteq> 0"
    "0 < psi_R (fo_state full_order_second_cycle)"
    by (simp_all add: example_defs full_order_second_cycle_eq)
  have d: "Observer_den sensored_current_model ?f1 \<le> 0"
    by (simp add: example_defs output_defs)
  have e: "psi_R (fo_state full_order_second_cycle)
       - L_sgm (fo_par full_order_second_cycle)
         * Re (fbk_i_s ?f2 - i_s (fo_state full_order_second_cycle)) \<le> 0"
    by (simp add: example_defs full_order_second_cycle_eq)
  note t = output_frequency_division_guarded
        [of sensored_current_model "measured \<i> 1 0"
            "sensored_current_model\<lparr>work := \<lparr>d_psi_R = 2, d_w_m = 0, old_i_s = 0\<rparr>\<rparr>" ?f1
            full_order_second_cycle
            "full_order_second_cycle
                \<lparr>fo_work := \<lparr>d_psi_R = 417 / 200, d_w_m = 3125000 / 11,
                             d_i_s = 72901 / 88 - 4089 / 88 * \<i>\<rparr>\<rparr>" ?f2]
  have a: "fbk_w_s ?f1 = fbk_w_m ?f1"
    using t p d sensored_current_model_output by blast
  have "fbk_w_s ?f2
          = (if 0 < psi_R (fo_state full_order_second_cycle)
             then - alpha_o (fo_gain full_order_second_cycle)
                    * L_sgm (fo_par full_order_second_cycle)
                    * Im (fbk_i_s ?f2 - i_s (fo_state full_order_second_cycle))
                    / psi_R (fo_state full_order_second_cycle)
             else 0) + w_m (fo_state full_order_second_cycle)"
    using t e full_order_second_cycle_output by blast
  then have b: "(1250 / 11 :: real)
       = - alpha_o (fo_gain full_order_second_cycle) * L_sgm (fo_par full_order_second_cycle)
           * Im (1 - i_s (fo_state full_order_second_cycle))
           / psi_R (fo_state full_order_second_cycle)
         + w_m (fo_state full_order_second_cycle)"
    using p(5) by (simp add: measured_def)
  have e': "psi_R (fo_state full_order_second_cycle)
       - L_sgm (fo_par full_order_second_cycle)
         * Re (1 - i_s (fo_state full_order_second_cycle)) \<le> 0"
    using e by (simp add: measured_def)
  show ?thesis
    using p d a b e' sensored_current_model_output full_order_second_cycle_output by blast
qed


section \<open>The slip frequency\<close>

text \<open>
  C2. For every call of the reduced-order \<^verbatim>\<open>Observer.output\<close> that returns, the slip
  frequency is \<open>w_r = R_R * Im i_s / psi_R\<close> when the flux magnitude estimate \<open>psi_R\<close> is
  strictly positive, and exactly \<open>0\<close> when \<open>psi_R \<le> 0\<close>; in the latter case no division
  by \<open>psi_R\<close> is performed: the call returns once the sampling period and \<open>L_M\<close>, the
  divisors among the parameters, are not zero.
\<close>

theorem Observer_output_slip_frequency:
  "(Observer_output self fbk = Inr (self', fbk') \<and> 0 < psi_R (state self)
      \<longrightarrow> fbk_w_r fbk' = R_R (par self) * Im (fbk_i_s fbk') / psi_R (state self))
   \<and> (Observer_output self fbk = Inr (self', fbk') \<and> psi_R (state self) \<le> 0
      \<longrightarrow> fbk_w_r fbk' = 0)
   \<and> (psi_R (state self) \<le> 0 \<and> T_s self \<noteq> 0 \<and> L_M (par self) \<noteq> 0
      \<longrightarrow> (\<exists>r. Observer_output self fbk = Inr r))"
  using Observer_output_Inr(6) [of self fbk self' fbk'] Observer_output_total [of self fbk]
  by simp

theorem Observer_output_slip_frequency_witness:
  "Observer_output (sensored_current_model\<lparr>state := \<lparr>psi_R = 1 / 2, theta_s = 0, w_m = 0\<rparr>\<rparr>)
       (measured \<i> (1 + \<i>) 0)
     = Inr (sensored_current_model
              \<lparr>state := \<lparr>psi_R = 1 / 2, theta_s = 0, w_m = 0\<rparr>,
               work := \<lparr>d_psi_R = - 3, d_w_m = 0, old_i_s = 0\<rparr>\<rparr>,
            (measured \<i> (1 + \<i>) 0)
              \<lparr>fbk_psi_R := 1 / 2, fbk_i_s := 1 + \<i>, fbk_u_s := \<i>,
               fbk_psi_s := (1 + \<i>) / 50 + 1 / 2, fbk_w_s := 4, fbk_w_r := 4\<rparr>)
   \<and> 0 < psi_R (state (sensored_current_model\<lparr>state := \<lparr>psi_R = 1 / 2, theta_s = 0, w_m = 0\<rparr>\<rparr>))
   \<and> (4::real) = 2 * Im (1 + \<i>) / (1 / 2)
   \<and> Observer_output sensored_current_model (measured 0 (- 1) 0)
     = Inr (sensored_current_model\<lparr>work := \<lparr>d_psi_R = - 2, d_w_m = 0, old_i_s = 0\<rparr>\<rparr>,
            (measured 0 (- 1) 0)\<lparr>fbk_i_s := - 1, fbk_psi_s := - (1 / 50)\<rparr>)
   \<and> psi_R (state sensored_current_model) \<le> 0
   \<and> T_s sensored_current_model \<noteq> 0 \<and> L_M (par sensored_current_model) \<noteq> 0
   \<and> fbk_w_r ((measured 0 (- 1) 0)\<lparr>fbk_i_s := - 1, fbk_psi_s := - (1 / 50)\<rparr>) = 0"
proof -
  have p: "0 < psi_R (state (sensored_current_model\<lparr>state := \<lparr>psi_R = 1 / 2, theta_s = 0, w_m = 0\<rparr>\<rparr>))"
    "psi_R (state sensored_current_model) \<le> 0"
    "T_s sensored_current_model \<noteq> 0" "L_M (par sensored_current_model) \<noteq> 0"
    by (simp_all add: example_defs)
  have "fbk_w_r ((measured \<i> (1 + \<i>) 0)
              \<lparr>fbk_psi_R := 1 / 2, fbk_i_s := 1 + \<i>, fbk_u_s := \<i>,
               fbk_psi_s := (1 + \<i>) / 50 + 1 / 2, fbk_w_s := 4, fbk_w_r := 4\<rparr>)
        = R_R (par (sensored_current_model\<lparr>state := \<lparr>psi_R = 1 / 2, theta_s = 0, w_m = 0\<rparr>\<rparr>))
          * Im (fbk_i_s ((measured \<i> (1 + \<i>) 0)
              \<lparr>fbk_psi_R := 1 / 2, fbk_i_s := 1 + \<i>, fbk_u_s := \<i>,
               fbk_psi_s := (1 + \<i>) / 50 + 1 / 2, fbk_w_s := 4, fbk_w_r := 4\<rparr>))
          / psi_R (state (sensored_current_model\<lparr>state := \<lparr>psi_R = 1 / 2, theta_s = 0, w_m = 0\<rparr>\<rparr>))"
    using p(1) flux_established_output
      Observer_output_slip_frequency
        [of "sensored_current_model\<lparr>state := \<lparr>psi_R = 1 / 2, theta_s = 0, w_m = 0\<rparr>\<rparr>"
            "measured \<i> (1 + \<i>) 0"]
    by blast
  then have a: "(4::real) = 2 * Im (1 + \<i>) / (1 / 2)"
    by (simp add: example_defs)
  have b: "fbk_w_r ((measured 0 (- 1) 0)\<lparr>fbk_i_s := - 1, fbk_psi_s := - (1 / 50)\<rparr>) = 0"
    using p(2) sensored_current_model_output_neg
      Observer_output_slip_frequency [of sensored_current_model "measured 0 (- 1) 0"]
    by blast
  show ?thesis
    using p a b flux_established_output sensored_current_model_output_neg by blast
qed

section \<open>The fallback of the coordinate-system frequency\<close>

text \<open>
  C3, as stated: with \<open>psi_R \<le> 0\<close> the returned \<open>w_s\<close> equals the speed estimate \<open>w_m\<close>.
  The guard of the source is on the denominator \<open>den\<close>, not on \<open>psi_R\<close>: at the initial
  state (\<open>psi_R = 0\<close>) of the sensorless pure voltage model, the current \<open>i_ss = 1\<close> makes
  \<open>den = L_sgm > 0\<close>, and with \<open>u_ss = \<i>\<close> the frequency is \<open>w_s = 50\<close> while \<open>w_m = 0\<close>.
\<close>

theorem Observer_output_fallback_counterexample:
  "psi_R (state sensorless_voltage_model) \<le> 0
   \<and> Observer_output sensorless_voltage_model (measured \<i> 1 0)
       = Inr (sensorless_voltage_model
                \<lparr>work := \<lparr>d_psi_R = - 84, d_w_m = 12500, old_i_s = 0\<rparr>\<rparr>,
              (measured \<i> 1 0)
                \<lparr>fbk_i_s := 1, fbk_u_s := \<i>, fbk_psi_s := 1 / 50, fbk_w_s := 50\<rparr>)
   \<and> fbk_w_s ((measured \<i> 1 0)
                \<lparr>fbk_i_s := 1, fbk_u_s := \<i>, fbk_psi_s := 1 / 50, fbk_w_s := 50\<rparr>) = 50
   \<and> fbk_w_m ((measured \<i> 1 0)
                \<lparr>fbk_i_s := 1, fbk_u_s := \<i>, fbk_psi_s := 1 / 50, fbk_w_s := 50\<rparr>) = 0"
  using sensorless_voltage_model_output by (simp add: example_defs)

text \<open>
  C3, amended: for every call of the reduced-order \<^verbatim>\<open>Observer.output\<close> that returns and
  in which the denominator \<open>den = psi_R + L_sgm * Re ((1 - k_o1) * i_s + k_o2 * cnj i_s)\<close>
  is not positive, the returned \<open>w_s\<close> exactly equals the speed estimate \<open>w_m\<close>.
\<close>

theorem Observer_output_fallback:
  "Observer_output self fbk = Inr (self', fbk') \<and> Observer_den self fbk' \<le> 0
     \<longrightarrow> fbk_w_s fbk' = fbk_w_m fbk'"
  using Observer_output_Inr(5) [of self fbk self' fbk'] by blast

theorem Observer_output_fallback_witness:
  "Observer_output sensored_current_model (measured 0 (- 1) 0)
     = Inr (sensored_current_model\<lparr>work := \<lparr>d_psi_R = - 2, d_w_m = 0, old_i_s = 0\<rparr>\<rparr>,
            (measured 0 (- 1) 0)\<lparr>fbk_i_s := - 1, fbk_psi_s := - (1 / 50)\<rparr>)
   \<and> Observer_den sensored_current_model
        ((measured 0 (- 1) 0)\<lparr>fbk_i_s := - 1, fbk_psi_s := - (1 / 50)\<rparr>) \<le> 0
   \<and> fbk_w_s ((measured 0 (- 1) 0)\<lparr>fbk_i_s := - 1, fbk_psi_s := - (1 / 50)\<rparr>)
       = fbk_w_m ((measured 0 (- 1) 0)\<lparr>fbk_i_s := - 1, fbk_psi_s := - (1 / 50)\<rparr>)"
proof -
  have d: "Observer_den sensored_current_model
        ((measured 0 (- 1) 0)\<lparr>fbk_i_s := - 1, fbk_psi_s := - (1 / 50)\<rparr>) \<le> 0"
    by (simp add: example_defs output_defs)
  show ?thesis
    using d sensored_current_model_output_neg
      Observer_output_fallback [of sensored_current_model "measured 0 (- 1) 0"]
    by blast
qed

section \<open>The diode bridge\<close>

text \<open>
  C4. If the inductor current \<open>i_L\<close> is \<open>0\<close> and its unconstrained derivative
  \<open>(u_di - u_dc) / L\<close> is negative, the returned derivative should be \<open>0\<close>. The source
  guards with \<^verbatim>\<open>i_L < 0\<close>, so at \<open>i_L = 0\<close> the negative derivative is returned as it is.
  This is the start of every simulation of the example converter: at \<open>t = 0\<close>, with the
  initial DC-bus voltage \<open>u_dc0\<close> and the initial inductor current \<open>i_L0 = 0\<close>, the
  rectified voltage is \<open>600 * sqrt (2 / 3)\<close>, below \<open>u_dc0 = 400 * sqrt 2\<close>.
\<close>

theorem FrequencyConverter_f_at_start:
  "u_dc0 example_converter = 400 * sqrt 2 \<and> i_L0 example_converter = 0
   \<and> FrequencyConverter_f example_converter 0 (u_dc0 example_converter)
         (i_L0 example_converter) 0
       = Inr [0, 500 * (600 * sqrt (2 / 3) - 400 * sqrt 2)]
   \<and> 500 * (600 * sqrt (2 / 3) - 400 * sqrt 2) < 0"
proof -
  have a: "u_dc0 example_converter = 400 * sqrt 2" "i_L0 example_converter = 0"
    "L example_converter = 1 / 500" "C example_converter = 47 / 200000"
    by (simp_all add: example_converter_def FrequencyConverter_init_def)
  have b: "FrequencyConverter_f example_converter 0 (400 * sqrt 2) 0 0
      = Inr [0, 500 * (600 * sqrt (2 / 3) - 400 * sqrt 2)]"
    apply (simp only: FrequencyConverter_f_def Let_def grid_voltages_example_0 a)
    apply (simp add: amax_def amin_def bind_err_def div_real_def)
    done
  show ?thesis using rectified_below_dc_bus by (simp add: a b)
qed


section \<open>The flux angle stays wrapped\<close>

text \<open>
  C5. For every feedback input and every sampling period \<open>T\<close>, \<^verbatim>\<open>output\<close> followed by
  \<^verbatim>\<open>update\<close> on either observer leaves the stored flux angle \<open>theta_s\<close> within
  \<open>(-\<pi>, \<pi>]\<close>. Both updates store \<open>wrap (theta_s + T * w_s)\<close>; the interval is the one of
  \<open>wrap\<close> as the spec gives it.
\<close>

theorem update_wraps_theta_s:
  "(Observer_output self fbk = Inr (self', fbk')
      \<longrightarrow> - pi < theta_s (state (Observer_update self' T fbk'))
          \<and> theta_s (state (Observer_update self' T fbk')) \<le> pi)
   \<and> (FullOrderObserver_output fo fbk = Inr (fo', fbk'')
      \<longrightarrow> - pi < theta_s (fo_state (FullOrderObserver_update fo' T fbk''))
          \<and> theta_s (fo_state (FullOrderObserver_update fo' T fbk'')) \<le> pi)"
  by (simp add: Observer_update_def FullOrderObserver_update_def wrap_range)

theorem update_wraps_theta_s_witness:
  "Observer_output sensored_current_model (measured \<i> 1 0)
     = Inr (sensored_current_model\<lparr>work := \<lparr>d_psi_R = 2, d_w_m = 0, old_i_s = 0\<rparr>\<rparr>,
            (measured \<i> 1 0)\<lparr>fbk_i_s := 1, fbk_u_s := \<i>, fbk_psi_s := 1 / 50\<rparr>)
   \<and> - pi < theta_s (state (Observer_update
         (sensored_current_model\<lparr>work := \<lparr>d_psi_R = 2, d_w_m = 0, old_i_s = 0\<rparr>\<rparr>) (1 / 4000)
         ((measured \<i> 1 0)\<lparr>fbk_i_s := 1, fbk_u_s := \<i>, fbk_psi_s := 1 / 50\<rparr>)))
   \<and> theta_s (state (Observer_update
         (sensored_current_model\<lparr>work := \<lparr>d_psi_R = 2, d_w_m = 0, old_i_s = 0\<rparr>\<rparr>) (1 / 4000)
         ((measured \<i> 1 0)\<lparr>fbk_i_s := 1, fbk_u_s := \<i>, fbk_psi_s := 1 / 50\<rparr>))) \<le> pi
   \<and> FullOrderObserver_output full_order_example (measured \<i> 1 0)
       = Inr (full_order_example
                \<lparr>fo_par := example_par\<lparr>R_sgm := Some 6, alpha := Some 10\<rparr>,
                 fo_work := \<lparr>d_psi_R = 11 / 5, d_w_m = 0, d_i_s = 2190 + 50 * \<i>\<rparr>\<rparr>,
              (measured \<i> 1 0)\<lparr>fbk_i_s := 1, fbk_u_s := \<i>\<rparr>)
   \<and> - pi < theta_s (fo_state (FullOrderObserver_update
         (full_order_example
                \<lparr>fo_par := example_par\<lparr>R_sgm := Some 6, alpha := Some 10\<rparr>,
                 fo_work := \<lparr>d_psi_R = 11 / 5, d_w_m = 0, d_i_s = 2190 + 50 * \<i>\<rparr>\<rparr>) (1 / 4000)
         ((measured \<i> 1 0)\<lparr>fbk_i_s := 1, fbk_u_s := \<i>\<rparr>)))
   \<and> theta_s (fo_state (FullOrderObserver_update
         (full_order_example
                \<lparr>fo_par := example_par\<lparr>R_sgm := Some 6, alpha := Some 10\<rparr>,
                 fo_work := \<lparr>d_psi_R = 11 / 5, d_w_m = 0, d_i_s = 2190 + 50 * \<i>\<rparr>\<rparr>) (1 / 4000)
         ((measured \<i> 1 0)\<lparr>fbk_i_s := 1, fbk_u_s := \<i>\<rparr>))) \<le> pi"
  using sensored_current_model_output full_order_example_output
    update_wraps_theta_s
      [of sensored_current_model "measured \<i> 1 0"
          "sensored_current_model\<lparr>work := \<lparr>d_psi_R = 2, d_w_m = 0, old_i_s = 0\<rparr>\<rparr>"
          "(measured \<i> 1 0)\<lparr>fbk_i_s := 1, fbk_u_s := \<i>, fbk_psi_s := 1 / 50\<rparr>"
          "1 / 4000" full_order_example
          "full_order_example
                \<lparr>fo_par := example_par\<lparr>R_sgm := Some 6, alpha := Some 10\<rparr>,
                 fo_work := \<lparr>d_psi_R = 11 / 5, d_w_m = 0, d_i_s = 2190 + 50 * \<i>\<rparr>\<rparr>"
          "(measured \<i> 1 0)\<lparr>fbk_i_s := 1, fbk_u_s := \<i>\<rparr>"]
  by blast

section \<open>The flux magnitude\<close>

text \<open>
  C6, as stated: \<open>psi_R \<ge> 0\<close> holds initially and after every cycle of \<^verbatim>\<open>output\<close> and
  \<^verbatim>\<open>update\<close>. The sensored current-model observer starts with \<open>psi_R = 0\<close>; the measured
  current \<open>i_ss = -1\<close> gives the stored derivative \<open>d_psi_R = - R_R = -2\<close>, and the update
  over the sampling period \<open>1 / 4000\<close> leaves \<open>psi_R = - 1 / 2000\<close>.
\<close>

theorem psi_R_negative_counterexample:
  "sensored_current_model = Observer_init
     \<lparr>model_par = example_par, pars_T_s = 1 / 4000, pars_sensorless = False,
      pars_gain = \<lparr>alpha_o = 250, k_o = (\<lambda>w_m. 1)\<rparr>\<rparr>
   \<and> psi_R (state sensored_current_model) = 0
   \<and> Observer_output sensored_current_model (measured 0 (- 1) 0)
       = Inr (sensored_current_model\<lparr>work := \<lparr>d_psi_R = - 2, d_w_m = 0, old_i_s = 0\<rparr>\<rparr>,
              (measured 0 (- 1) 0)\<lparr>fbk_i_s := - 1, fbk_psi_s := - (1 / 50)\<rparr>)
   \<and> psi_R (state (Observer_update
         (sensored_current_model\<lparr>work := \<lparr>d_psi_R = - 2, d_w_m = 0, old_i_s = 0\<rparr>\<rparr>) (1 / 4000)
         ((measured 0 (- 1) 0)\<lparr>fbk_i_s := - 1, fbk_psi_s := - (1 / 50)\<rparr>))) = - (1 / 2000)"
  using sensored_current_model_output_neg
  by (simp add: Observer_update_def example_defs)

text \<open>
  C6, amended: \<open>psi_R\<close> is \<open>0\<close> at construction of either observer, and \<^verbatim>\<open>update\<close> replaces
  it by \<open>psi_R + T * d_psi_R\<close> (forward Euler, nothing is clamped); so an update with
  \<open>T \<ge> 0\<close> preserves \<open>psi_R \<ge> 0\<close> whenever the stored derivative \<open>d_psi_R\<close> is not
  negative.
\<close>

theorem psi_R_forward_euler:
  "psi_R (state (Observer_init p)) = 0
   \<and> (FullOrderObserver_init q = Inr fo0 \<longrightarrow> psi_R (fo_state fo0) = 0)
   \<and> psi_R (state (Observer_update self T fbk)) = psi_R (state self) + T * d_psi_R (work self)
   \<and> psi_R (fo_state (FullOrderObserver_update fo T fbk'))
       = psi_R (fo_state fo) + T * d_psi_R (fo_work fo)
   \<and> (0 \<le> psi_R (state self) \<and> 0 \<le> T \<and> 0 \<le> d_psi_R (work self)
        \<longrightarrow> 0 \<le> psi_R (state (Observer_update self T fbk)))
   \<and> (0 \<le> psi_R (fo_state fo) \<and> 0 \<le> T \<and> 0 \<le> d_psi_R (fo_work fo)
        \<longrightarrow> 0 \<le> psi_R (fo_state (FullOrderObserver_update fo T fbk')))"
  by (auto simp add: Observer_init_def FullOrderObserver_init_def Let_def Observer_update_def
      FullOrderObserver_update_def split: if_splits)

theorem psi_R_forward_euler_witness:
  "FullOrderObserver_init (full_order_pars True) = Inr full_order_example
   \<and> psi_R (fo_state full_order_example) = 0
   \<and> 0 \<le> psi_R (state (sensored_current_model
                           \<lparr>work := \<lparr>d_psi_R = 2, d_w_m = 0, old_i_s = 0\<rparr>\<rparr>))
   \<and> (0::real) \<le> 1 / 4000
   \<and> 0 \<le> d_psi_R (work (sensored_current_model
                             \<lparr>work := \<lparr>d_psi_R = 2, d_w_m = 0, old_i_s = 0\<rparr>\<rparr>))
   \<and> 0 \<le> psi_R (state (Observer_update
         (sensored_current_model\<lparr>work := \<lparr>d_psi_R = 2, d_w_m = 0, old_i_s = 0\<rparr>\<rparr>) (1 / 4000)
         ((measured \<i> 1 0)\<lparr>fbk_i_s := 1, fbk_u_s := \<i>, fbk_psi_s := 1 / 50\<rparr>)))
   \<and> 0 \<le> psi_R (fo_state (full_order_example
                \<lparr>fo_work := \<lparr>d_psi_R = 11 / 5, d_w_m = 0, d_i_s = 2190 + 50 * \<i>\<rparr>\<rparr>))
   \<and> 0 \<le> d_psi_R (fo_work (full_order_example
                \<lparr>fo_work := \<lparr>d_psi_R = 11 / 5, d_w_m = 0, d_i_s = 2190 + 50 * \<i>\<rparr>\<rparr>))
   \<and> 0 \<le> psi_R (fo_state (FullOrderObserver_update
         (full_order_example
                \<lparr>fo_work := \<lparr>d_psi_R = 11 / 5, d_w_m = 0, d_i_s = 2190 + 50 * \<i>\<rparr>\<rparr>) (1 / 4000)
         ((measured \<i> 1 0)\<lparr>fbk_i_s := 1, fbk_u_s := \<i>\<rparr>)))"
proof -
  have h: "0 \<le> psi_R (state (sensored_current_model
                           \<lparr>work := \<lparr>d_psi_R = 2, d_w_m = 0, old_i_s = 0\<rparr>\<rparr>))"
    "(0::real) \<le> 1 / 4000"
    "0 \<le> d_psi_R (work (sensored_current_model
                             \<lparr>work := \<lparr>d_psi_R = 2, d_w_m = 0, old_i_s = 0\<rparr>\<rparr>))"
    "0 \<le> psi_R (fo_state (full_order_example
                \<lparr>fo_work := \<lparr>d_psi_R = 11 / 5, d_w_m = 0, d_i_s = 2190 + 50 * \<i>\<rparr>\<rparr>))"
    "0 \<le> d_psi_R (fo_work (full_order_example
                \<lparr>fo_work := \<lparr>d_psi_R = 11 / 5, d_w_m = 0, d_i_s = 2190 + 50 * \<i>\<rparr>\<rparr>))"
    by (simp_all add: example_defs)
  show ?thesis
    using h full_order_init_example
      psi_R_forward_euler
        [where q = "full_order_pars True" and ?fo0.0 = full_order_example
           and self = "sensored_current_model\<lparr>work := \<lparr>d_psi_R = 2, d_w_m = 0, old_i_s = 0\<rparr>\<rparr>"
           and T = "1 / 4000"
           and fbk = "(measured \<i> 1 0)\<lparr>fbk_i_s := 1, fbk_u_s := \<i>, fbk_psi_s := 1 / 50\<rparr>"
           and fo = "full_order_example
                \<lparr>fo_work := \<lparr>d_psi_R = 11 / 5, d_w_m = 0, d_i_s = 2190 + 50 * \<i>\<rparr>\<rparr>"
           and fbk' = "(measured \<i> 1 0)\<lparr>fbk_i_s := 1, fbk_u_s := \<i>\<rparr>"]
    by blast
qed

section \<open>The full-order observer is sensorless only\<close>

text \<open>
  C7. Constructing a \<^verbatim>\<open>FullOrderObserver\<close> from parameters whose \<^verbatim>\<open>sensorless\<close> flag is
  \<open>False\<close> fails at construction with \<^verbatim>\<open>NotImplementedError\<close>; with the flag \<open>True\<close> it
  succeeds, and the observer it returns is sensorless. Its output never uses a measured
  speed: the result does not depend on the field \<open>w_m\<close> of the feedback input.
\<close>

theorem FullOrderObserver_init_rejects_sensored:
  "(\<not> pars_sensorless p \<longrightarrow> FullOrderObserver_init p = Inl NotImplementedError)
   \<and> (pars_sensorless p \<longrightarrow>
        FullOrderObserver_init p
          = Inr \<lparr>fo_par = model_par p, fo_sensorless = True, fo_gain = pars_gain p,
                 fo_state = \<lparr>psi_R = 0, theta_s = 0, w_m = 0, i_s = 0\<rparr>,
                 fo_work = \<lparr>d_psi_R = 0, d_w_m = 0, d_i_s = 0\<rparr>\<rparr>)
   \<and> FullOrderObserver_output self (fbk\<lparr>fbk_w_m := w\<rparr>) = FullOrderObserver_output self fbk"
  by (simp add: FullOrderObserver_init_def Let_def)
     (simp only: FullOrderObserver_output_def FullOrderObserver_estimates_w_m)

theorem FullOrderObserver_init_rejects_sensored_witness:
  "\<not> pars_sensorless (full_order_pars False)
   \<and> FullOrderObserver_init (full_order_pars False) = Inl NotImplementedError
   \<and> pars_sensorless (full_order_pars True)
   \<and> FullOrderObserver_init (full_order_pars True) = Inr full_order_example"
proof -
  have h: "\<not> pars_sensorless (full_order_pars False)" "pars_sensorless (full_order_pars True)"
    by (simp_all add: full_order_pars_def)
  show ?thesis
    using h FullOrderObserver_init_rejects_sensored [of "full_order_pars False"]
      FullOrderObserver_init_rejects_sensored [of "full_order_pars True"]
    by (simp add: full_order_pars_def full_order_example_def)
qed

section \<open>The model parameters during simulation\<close>

text \<open>
  C8, as stated: no call of \<^verbatim>\<open>output\<close> or \<^verbatim>\<open>update\<close> changes a field of the
  \<^verbatim>\<open>ModelPars\<close> record or the set of fields it carries. The first
  \<^verbatim>\<open>FullOrderObserver.output\<close> on the example parameters adds the attributes
  \<open>R_sgm = 6\<close> and \<open>alpha = 10\<close> to the record, which carried neither.
\<close>

theorem ModelPars_mutated_counterexample:
  "fo_par full_order_example = example_par
   \<and> R_sgm example_par = None \<and> alpha example_par = None
   \<and> FullOrderObserver_output full_order_example (measured \<i> 1 0)
       = Inr (full_order_example
                \<lparr>fo_par := example_par\<lparr>R_sgm := Some 6, alpha := Some 10\<rparr>,
                 fo_work := \<lparr>d_psi_R = 11 / 5, d_w_m = 0, d_i_s = 2190 + 50 * \<i>\<rparr>\<rparr>,
              (measured \<i> 1 0)\<lparr>fbk_i_s := 1, fbk_u_s := \<i>\<rparr>)
   \<and> example_par\<lparr>R_sgm := Some 6, alpha := Some 10\<rparr> \<noteq> example_par"
  using full_order_example_output by (simp add: example_defs)

text \<open>
  C8, amended: the reduced-order observer never changes its \<^verbatim>\<open>ModelPars\<close> record, in
  \<^verbatim>\<open>output\<close> or in \<^verbatim>\<open>update\<close>, and \<^verbatim>\<open>FullOrderObserver.update\<close> does not either.
  \<^verbatim>\<open>FullOrderObserver.output\<close> leaves the six declared fields as they are and sets the
  two derived attributes \<open>R_sgm = R_s + R_R\<close> and \<open>alpha = R_R / L_M\<close> on the record.
\<close>

theorem ModelPars_frame:
  "(Observer_output self fbk = Inr (self', fbk') \<longrightarrow> par self' = par self)
   \<and> par (Observer_update self T fbk) = par self
   \<and> (FullOrderObserver_output fo fbk = Inr (fo', fbk'') \<longrightarrow>
        fo_par fo' = (fo_par fo)\<lparr>R_sgm := Some (R_s (fo_par fo) + R_R (fo_par fo)),
                                 alpha := Some (R_R (fo_par fo) / L_M (fo_par fo))\<rparr>)
   \<and> fo_par (FullOrderObserver_update fo T fbk) = fo_par fo"
  using Observer_output_Inr(10) [of self fbk self' fbk']
    FullOrderObserver_output_Inr(9) [of fo fbk fo' fbk'']
  by (simp add: Observer_update_def FullOrderObserver_update_def)

theorem ModelPars_frame_witness:
  "Observer_output sensored_current_model (measured \<i> 1 0)
     = Inr (sensored_current_model\<lparr>work := \<lparr>d_psi_R = 2, d_w_m = 0, old_i_s = 0\<rparr>\<rparr>,
            (measured \<i> 1 0)\<lparr>fbk_i_s := 1, fbk_u_s := \<i>, fbk_psi_s := 1 / 50\<rparr>)
   \<and> par (sensored_current_model\<lparr>work := \<lparr>d_psi_R = 2, d_w_m = 0, old_i_s = 0\<rparr>\<rparr>)
       = par sensored_current_model
   \<and> FullOrderObserver_output full_order_example (measured \<i> 1 0)
       = Inr (full_order_example
                \<lparr>fo_par := example_par\<lparr>R_sgm := Some 6, alpha := Some 10\<rparr>,
                 fo_work := \<lparr>d_psi_R = 11 / 5, d_w_m = 0, d_i_s = 2190 + 50 * \<i>\<rparr>\<rparr>,
              (measured \<i> 1 0)\<lparr>fbk_i_s := 1, fbk_u_s := \<i>\<rparr>)
   \<and> fo_par (full_order_example
                \<lparr>fo_par := example_par\<lparr>R_sgm := Some 6, alpha := Some 10\<rparr>,
                 fo_work := \<lparr>d_psi_R = 11 / 5, d_w_m = 0, d_i_s = 2190 + 50 * \<i>\<rparr>\<rparr>)
       = (fo_par full_order_example)
           \<lparr>R_sgm := Some (R_s (fo_par full_order_example) + R_R (fo_par full_order_example)),
            alpha := Some (R_R (fo_par full_order_example) / L_M (fo_par full_order_example))\<rparr>"
  using sensored_current_model_output full_order_example_output
    ModelPars_frame
      [of sensored_current_model "measured \<i> 1 0"
          "sensored_current_model\<lparr>work := \<lparr>d_psi_R = 2, d_w_m = 0, old_i_s = 0\<rparr>\<rparr>"
          "(measured \<i> 1 0)\<lparr>fbk_i_s := 1, fbk_u_s := \<i>, fbk_psi_s := 1 / 50\<rparr>"
          _ full_order_example
          "full_order_example
                \<lparr>fo_par := example_par\<lparr>R_sgm := Some 6, alpha := Some 10\<rparr>,
                 fo_work := \<lparr>d_psi_R = 11 / 5, d_w_m = 0, d_i_s = 2190 + 50 * \<i>\<rparr>\<rparr>"
          "(measured \<i> 1 0)\<lparr>fbk_i_s := 1, fbk_u_s := \<i>\<rparr>"]
  by blast

section \<open>The observer gains of the two modes\<close>

text \<open>
  C9, as stated: the sensorless mode uses one gain term (the coefficients \<open>k_o1\<close> and
  \<open>k_o2\<close> are equal), the sensored mode two independent gain terms. In the sensored
  current-model observer the gain function gives \<open>1\<close> and the coefficients are
  \<open>(k_o1, k_o2) = (1, 0)\<close>: the coefficient of the conjugate is the constant \<open>0\<close>, so a
  single gain term is in use.
\<close>

theorem Observer_gains_sensored_counterexample:
  "\<not> sensorless sensored_current_model
   \<and> k_o (gain sensored_current_model) 0 = 1
   \<and> Observer_gains sensored_current_model 0 = (1, 0)"
  by (simp add: Observer_gains_def example_defs)

text \<open>
  C9, amended: in the sensorless mode the two coefficients are equal, \<open>k_o1 = k_o2 =
  k_o w_m\<close>, so that one gain scales the conjugate-symmetric correction \<open>e + cnj e =
  2 * Re e\<close>; in the sensored mode \<open>k_o1 = k_o w_m\<close> and \<open>k_o2 = 0\<close>, so that the one gain
  scales the correction \<open>e\<close> itself and the conjugate term vanishes.
\<close>

theorem Observer_gains_per_mode:
  "(sensorless self \<longrightarrow>
      Observer_gains self w = (k_o (gain self) w, k_o (gain self) w)
      \<and> fst (Observer_gains self w) * e + snd (Observer_gains self w) * cnj e
          = k_o (gain self) w * complex_of_real (2 * Re e))
   \<and> (\<not> sensorless self \<longrightarrow>
      Observer_gains self w = (k_o (gain self) w, 0)
      \<and> fst (Observer_gains self w) * e + snd (Observer_gains self w) * cnj e
          = k_o (gain self) w * e)"
proof -
  have "k_o (gain self) w * e + k_o (gain self) w * cnj e
          = k_o (gain self) w * complex_of_real (2 * Re e)"
    by (simp only: distrib_left [symmetric] complex_add_cnj)
  then show ?thesis by (simp add: Observer_gains_def Let_def)
qed

theorem Observer_gains_per_mode_witness:
  "sensorless (sensorless_voltage_model\<lparr>gain := \<lparr>alpha_o = 250, k_o = (\<lambda>w_m. 1 / 2)\<rparr>\<rparr>)
   \<and> Observer_gains
        (sensorless_voltage_model\<lparr>gain := \<lparr>alpha_o = 250, k_o = (\<lambda>w_m. 1 / 2)\<rparr>\<rparr>) 0
       = (1 / 2, 1 / 2)
   \<and> \<not> sensorless sensored_current_model
   \<and> Observer_gains sensored_current_model 0 = (1, 0)"
proof -
  have h: "sensorless (sensorless_voltage_model\<lparr>gain := \<lparr>alpha_o = 250, k_o = (\<lambda>w_m. 1 / 2)\<rparr>\<rparr>)"
    "\<not> sensorless sensored_current_model"
    by (simp_all add: example_defs)
  show ?thesis
    using h
      Observer_gains_per_mode
        [of "sensorless_voltage_model\<lparr>gain := \<lparr>alpha_o = 250, k_o = (\<lambda>w_m. 1 / 2)\<rparr>\<rparr>" 0]
      Observer_gains_per_mode [of sensored_current_model 0]
    by (simp add: example_defs)
qed


end
